theory Spec2Isabelle
  imports Complex_Main
begin

section \<open>Common data\<close>

text \<open>
  Points in time (Python \<open>datetime\<close>, resolution one microsecond) are integers counting
  microseconds; a \<open>timedelta\<close> is an integer number of microseconds. Dates are day numbers.
  \<open>Decimal\<close> amounts are rationals: the model fields carry at most 10 digits, so the
  products, quotients by 100 and sums formed below are exact under Python's 28-digit
  decimal context.
\<close>

type_synonym datetime = int
type_synonym date = int
type_synonym decimal = rat

definition timedelta_minutes :: "int \<Rightarrow> int" where
  "timedelta_minutes m = m * 60000000"

definition timedelta_hours :: "int \<Rightarrow> int" where
  "timedelta_hours h = h * 3600000000"

section \<open>products/models.py: Product\<close>

text \<open>
  The fields of \<open>Product\<close> that its methods and properties read or write, with a few
  plain fields kept to state frame properties. Nullable columns are options.
\<close>

record product =
  name :: string
  slug :: string
  sku :: string
  price :: decimal
  cost_price :: "decimal option"
  discount_percentage :: decimal
  sale_price :: "decimal option"
  sale_starts_at :: "datetime option"
  sale_ends_at :: "datetime option"
  stock_quantity :: int
  low_stock_threshold :: int
  is_active :: bool
  is_on_sale :: bool
  preorder_available :: bool
  backorder_allowed :: bool
  restock_date :: "date option"
  created_at :: "datetime option"
  updated_at :: "datetime option"

text \<open>Python truth value of a nullable \<open>Decimal\<close>: \<open>None\<close> and zero are false.\<close>

definition decimal_truthy :: "decimal option \<Rightarrow> bool" where
  "decimal_truthy d = (case d of None \<Rightarrow> False | Some x \<Rightarrow> x \<noteq> 0)"

text \<open>
  \<open>is_sale_active\<close>: \<open>not self.sale_starts_at or not self.sale_ends_at\<close> tests for
  \<open>None\<close> (a datetime is never false); otherwise the current time is compared with both ends.
\<close>

definition is_sale_active :: "datetime \<Rightarrow> product \<Rightarrow> bool" where
  "is_sale_active now p =
     (case sale_starts_at p of
        None \<Rightarrow> True
      | Some s \<Rightarrow>
          (case sale_ends_at p of
             None \<Rightarrow> True
           | Some e \<Rightarrow> s \<le> now \<and> now \<le> e))"

definition final_price :: "product \<Rightarrow> decimal" where
  "final_price p =
     (if discount_percentage p > 0
      then price p - (price p * discount_percentage p / 100)
      else price p)"

definition current_price :: "datetime \<Rightarrow> product \<Rightarrow> decimal" where
  "current_price now p =
     (case sale_price p of
        None \<Rightarrow> final_price p
      | Some s \<Rightarrow> if s \<noteq> 0 \<and> is_sale_active now p then s else final_price p)"

definition savings_amount :: "datetime \<Rightarrow> product \<Rightarrow> decimal" where
  "savings_amount now p = price p - current_price now p"

definition is_low_stock :: "product \<Rightarrow> bool" where
  "is_low_stock p = (0 < stock_quantity p \<and> stock_quantity p \<le> low_stock_threshold p)"

definition is_in_stock :: "product \<Rightarrow> bool" where
  "is_in_stock p = (stock_quantity p > 0)"

definition stock_status :: "product \<Rightarrow> string" where
  "stock_status p =
     (if is_in_stock p then
        (if is_low_stock p then ''low_stock'' else ''in_stock'')
      else if preorder_available p then ''preorder''
      else if backorder_allowed p then ''backorder''
      else if restock_date p \<noteq> None then ''out_of_stock_restock_scheduled''
      else ''out_of_stock'')"

text \<open>
  \<open>Product.save(self, *args, **kwargs)\<close>. The body fills an empty slug and sets the
  \<open>is_on_sale\<close> flag on the object; \<open>slugify\<close> is the framework's function and is a
  parameter.
\<close>

definition auto_slug :: "(string \<Rightarrow> string) \<Rightarrow> product \<Rightarrow> product" where
  "auto_slug slugify p =
     (if slug p = [] then p\<lparr>slug := slugify (name p @ ''-'' @ sku p)\<rparr> else p)"

definition auto_on_sale :: "datetime \<Rightarrow> product \<Rightarrow> product" where
  "auto_on_sale now p =
     (if decimal_truthy (sale_price p) \<and> is_sale_active now p then p\<lparr>is_on_sale := True\<rparr>
      else if \<not> decimal_truthy (sale_price p) \<and> discount_percentage p = 0
           then p\<lparr>is_on_sale := False\<rparr>
      else p)"

text \<open>
  The call \<open>super().save(*args, **kwargs)\<close> is the framework's \<open>Model.save\<close>; the one
  keyword the repository passes is \<open>update_fields\<close>. One save reads the clock up to three
  times: in \<open>is_sale_active\<close>, for \<open>created_at\<close> (\<open>auto_now_add\<close>) and for \<open>updated_at\<close>
  (\<open>auto_now\<close>).
\<close>

record clock_readings =
  sale_check_time :: datetime
  created_stamp :: datetime
  updated_stamp :: datetime

text \<open>
  The names \<open>update_fields\<close> may list: the fields of \<open>Product\<close> other than the primary
  key, foreign keys also under their column names.
\<close>

definition product_field_names :: "string list" where
  "product_field_names =
     [''name'', ''slug'', ''sku'', ''description'', ''short_description'',
      ''category'', ''category_id'', ''brand'', ''brand_id'',
      ''price'', ''cost_price'', ''discount_percentage'',
      ''sale_price'', ''sale_starts_at'', ''sale_ends_at'',
      ''specifications'', ''weight'', ''dimensions'',
      ''stock_quantity'', ''low_stock_threshold'', ''condition'', ''is_active'', ''is_featured'',
      ''is_new_arrival'', ''new_arrival_until'', ''is_bestseller'', ''is_on_sale'',
      ''badge_text'', ''badge_color'',
      ''preorder_available'', ''preorder_release_date'', ''backorder_allowed'', ''restock_date'',
      ''manufacturer'', ''model_number'', ''warranty_period'', ''warranty_details'',
      ''requires_shipping'', ''is_fragile'', ''shipping_class'', ''max_quantity_per_order'',
      ''display_order'', ''view_count'', ''popularity_score'',
      ''has_variants'', ''parent_product'', ''parent_product_id'',
      ''visibility'', ''publish_date'',
      ''meta_title'', ''meta_description'', ''seo_keywords'', ''canonical_url'', ''og_image'',
      ''created_at'', ''updated_at'']"

text \<open>An \<open>UPDATE\<close> of the listed columns: they come from the object, the others stay.\<close>

definition store_fields :: "string list \<Rightarrow> product \<Rightarrow> product \<Rightarrow> product" where
  "store_fields fs obj row =
     row\<lparr>name := (if ''name'' \<in> set fs then name obj else name row),
         slug := (if ''slug'' \<in> set fs then slug obj else slug row),
         sku := (if ''sku'' \<in> set fs then sku obj else sku row),
         price := (if ''price'' \<in> set fs then price obj else price row),
         cost_price := (if ''cost_price'' \<in> set fs then cost_price obj else cost_price row),
         discount_percentage :=
           (if ''discount_percentage'' \<in> set fs then discount_percentage obj
            else discount_percentage row),
         sale_price := (if ''sale_price'' \<in> set fs then sale_price obj else sale_price row),
         sale_starts_at :=
           (if ''sale_starts_at'' \<in> set fs then sale_starts_at obj else sale_starts_at row),
         sale_ends_at := (if ''sale_ends_at'' \<in> set fs then sale_ends_at obj else sale_ends_at row),
         stock_quantity :=
           (if ''stock_quantity'' \<in> set fs then stock_quantity obj else stock_quantity row),
         low_stock_threshold :=
           (if ''low_stock_threshold'' \<in> set fs then low_stock_threshold obj
            else low_stock_threshold row),
         is_active := (if ''is_active'' \<in> set fs then is_active obj else is_active row),
         is_on_sale := (if ''is_on_sale'' \<in> set fs then is_on_sale obj else is_on_sale row),
         preorder_available :=
           (if ''preorder_available'' \<in> set fs then preorder_available obj
            else preorder_available row),
         backorder_allowed :=
           (if ''backorder_allowed'' \<in> set fs then backorder_allowed obj
            else backorder_allowed row),
         restock_date := (if ''restock_date'' \<in> set fs then restock_date obj else restock_date row),
         created_at := (if ''created_at'' \<in> set fs then created_at obj else created_at row),
         updated_at := (if ''updated_at'' \<in> set fs then updated_at obj else updated_at row)\<rparr>"

text \<open>
  A save can fail: \<open>UnknownField\<close> is the \<open>ValueError\<close> for a name that is no field of
  the model; \<open>NoRowToUpdate\<close> is the error of a save with \<open>update_fields\<close> that finds no
  row (\<open>ValueError\<close> for an object without a primary key, \<open>DatabaseError\<close> for one whose
  row does not exist).
\<close>

datatype save_error = UnknownField | NoRowToUpdate

text \<open>
  \<open>Model.save\<close>, given the row the object's primary key names (\<open>None\<close>: there is none and
  the object is inserted). Without \<open>update_fields\<close> every field is stored, \<open>updated_at\<close>
  is stamped, and \<open>created_at\<close> too on insert. An empty \<open>update_fields\<close> returns at once.
  Otherwise only the listed fields are prepared and written, so \<open>updated_at\<close> is stamped
  only when it is listed. The result is the object after the call and the row after it.
\<close>

definition model_save ::
    "clock_readings \<Rightarrow> string list option \<Rightarrow> product option \<Rightarrow> product
       \<Rightarrow> save_error + product \<times> product option" where
  "model_save clock update_fields row obj =
     (case update_fields of
        None \<Rightarrow>
          (let obj1 = (if row = None then obj\<lparr>created_at := Some (created_stamp clock)\<rparr> else obj);
               obj2 = obj1\<lparr>updated_at := Some (updated_stamp clock)\<rparr>
           in Inr (obj2, Some obj2))
      | Some fs \<Rightarrow>
          if fs = [] then Inr (obj, row)
          else if \<not> list_all (\<lambda>f. f \<in> set product_field_names) fs then Inl UnknownField
          else (case row of
                  None \<Rightarrow> Inl NoRowToUpdate
                | Some r \<Rightarrow>
                    (let obj1 = (if ''updated_at'' \<in> set fs
                                 then obj\<lparr>updated_at := Some (updated_stamp clock)\<rparr> else obj)
                     in Inr (obj1, Some (store_fields fs obj1 r)))))"

definition Product_save ::
    "(string \<Rightarrow> string) \<Rightarrow> clock_readings \<Rightarrow> string list option \<Rightarrow> product option \<Rightarrow> product
       \<Rightarrow> save_error + product \<times> product option" where
  "Product_save slugify clock update_fields row obj =
     model_save clock update_fields row
       (auto_on_sale (sale_check_time clock) (auto_slug slugify obj))"

section \<open>products/models.py: ProductImage\<close>

text \<open>
  An image row: the product it belongs to (the foreign key), and its own columns. The
  table maps primary keys to rows and is kept as a list of pairs in insertion order.
\<close>

record product_image =
  image_product :: nat
  alt_text :: string
  is_primary :: bool
  image_order :: int

type_synonym image_table = "(nat \<times> product_image) list"

text \<open>\<open>ProductImage.objects.filter(product=..., is_primary=True).update(is_primary=False)\<close>\<close>

definition clear_primary :: "nat \<Rightarrow> image_table \<Rightarrow> image_table" where
  "clear_primary pid tbl =
     map (\<lambda>(k, r). if image_product r = pid \<and> is_primary r
                     then (k, r\<lparr>is_primary := False\<rparr>) else (k, r)) tbl"

text \<open>
  The framework's \<open>Model.save\<close>: an object whose primary key names an existing row
  replaces that row; otherwise a row is inserted, under the given key or, for an object
  without one, under a key the table has not used (one more than the largest).
\<close>

definition next_pk :: "image_table \<Rightarrow> nat" where
  "next_pk tbl = Suc (fold max (map fst tbl) 0)"

definition store_image :: "nat option \<Rightarrow> product_image \<Rightarrow> image_table \<Rightarrow> nat \<times> image_table" where
  "store_image pk img tbl =
     (case pk of
        None \<Rightarrow> (let k = next_pk tbl in (k, tbl @ [(k, img)]))
      | Some k \<Rightarrow>
          if k \<in> set (map fst tbl)
          then (k, map (\<lambda>(j, r). if j = k then (j, img) else (j, r)) tbl)
          else (k, tbl @ [(k, img)]))"

text \<open>
  \<open>ProductImage.save\<close>, as the repository calls it (creation through the manager and
  the serializer, saves from the admin): a save of all fields. It returns the primary
  key of the saved object and the new table.
\<close>

definition ProductImage_save :: "nat option \<Rightarrow> product_image \<Rightarrow> image_table \<Rightarrow> nat \<times> image_table" where
  "ProductImage_save pk img tbl =
     store_image pk img (if is_primary img then clear_primary (image_product img) tbl else tbl)"

text \<open>A sequence of save operations, each an object with its primary key (if it has one).\<close>

fun save_images :: "(nat option \<times> product_image) list \<Rightarrow> image_table \<Rightarrow> image_table" where
  "save_images [] tbl = tbl"
| "save_images ((pk, img) # ops) tbl = save_images ops (snd (ProductImage_save pk img tbl))"

definition primary_count :: "nat \<Rightarrow> image_table \<Rightarrow> nat" where
  "primary_count pid tbl = length (filter (\<lambda>(k, r). image_product r = pid \<and> is_primary r) tbl)"

section \<open>payments/tasks.py\<close>

text \<open>
  Modelled from the spec: the model classes \<open>MpesaTransaction\<close> and \<open>MpesaRefund\<close> are
  declared in \<open>payments/models.py\<close>, which is not among the sources; the specification
  has them as persistence-framework records. The records below hold the columns that the
  tasks read or write, under the names the tasks use. A status is the string the code
  compares.
\<close>

record mpesa_transaction =
  txn_id :: nat
  checkout_request_id :: string
  status :: string
  result_code :: "int option"
  result_desc :: string
  amount :: decimal
  initiated_at :: datetime
  failed_at :: "datetime option"

record mpesa_refund =
  refund_status :: string
  refund_amount :: decimal
  refund_initiated_at :: datetime

text \<open>Tasks queued with \<open>.delay(...)\<close>, with their arguments.\<close>

datatype notification =
    PaymentConfirmationEmail nat
  | PaymentFailedNotification nat
  | AdminPaymentAlert nat string string

definition transaction_statuses :: "string list" where
  "transaction_statuses =
     [''pending'', ''processing'', ''completed'', ''failed'', ''cancelled'', ''timeout'']"

text \<open>
  Modelled from the spec: \<open>transaction.save()\<close> is the save of a persistence-framework
  record. The row with the object's primary key is replaced by the object; an object
  whose key is not in the table is inserted.
\<close>

definition save_transaction :: "mpesa_transaction \<Rightarrow> mpesa_transaction list \<Rightarrow> mpesa_transaction list" where
  "save_transaction t rows =
     (if txn_id t \<in> set (map txn_id rows)
      then map (\<lambda>r. if txn_id r = txn_id t then t else r) rows
      else rows @ [t])"

subsection \<open>auto_timeout_stuck_transactions\<close>

record sweep_state =
  transactions :: "mpesa_transaction list"
  outbox :: "notification list"
  timeout_count :: nat

definition is_stuck :: "datetime \<Rightarrow> mpesa_transaction \<Rightarrow> bool" where
  "is_stuck cutoff_time t = (status t = ''processing'' \<and> initiated_at t \<le> cutoff_time)"

text \<open>The loop body, for one transaction of the query result; \<open>stamp\<close> is the clock reading.\<close>

definition timeout_transaction :: "datetime \<Rightarrow> mpesa_transaction \<Rightarrow> sweep_state \<Rightarrow> sweep_state" where
  "timeout_transaction stamp t s =
     (let t' = t\<lparr>status := ''timeout'',
                 result_desc := ''Transaction timed out - no response from M-Pesa'',
                 failed_at := Some stamp\<rparr>
      in s\<lparr>transactions := save_transaction t' (transactions s),
           outbox := outbox s @
             [PaymentFailedNotification (txn_id t'),
              AdminPaymentAlert (txn_id t') ''Transaction Timeout''
                (''Transaction '' @ checkout_request_id t' @ '' timed out after 2 hours'')],
           timeout_count := timeout_count s + 1\<rparr>)"

text \<open>
  The loop runs over the rows the query returned; the \<open>k\<close>-th pass reads the clock again
  (\<open>clock k\<close>). A save or a \<open>.delay(...)\<close> that raises ends the task with that exception;
  the model is of a run in which none raises.
\<close>

fun timeout_loop :: "(nat \<Rightarrow> datetime) \<Rightarrow> nat \<Rightarrow> mpesa_transaction list \<Rightarrow> sweep_state \<Rightarrow> sweep_state" where
  "timeout_loop clock k [] s = s"
| "timeout_loop clock k (t # ts) s = timeout_loop clock (Suc k) ts (timeout_transaction (clock k) t s)"

definition auto_timeout_stuck_transactions ::
    "datetime \<Rightarrow> (nat \<Rightarrow> datetime) \<Rightarrow> mpesa_transaction list \<Rightarrow> sweep_state" where
  "auto_timeout_stuck_transactions now clock rows =
     (let cutoff_time = now - timedelta_hours 2;
          stuck_transactions = filter (is_stuck cutoff_time) rows
      in timeout_loop clock 0 stuck_transactions
           \<lparr>transactions = rows, outbox = [], timeout_count = 0\<rparr>)"

subsection \<open>check_pending_transactions\<close>

text \<open>
  \<open>MpesaPaymentService.check_payment_status\<close> lives in \<open>payments/services.py\<close> and calls
  the provider; it is a parameter: given a checkout request id and the state of
  everything outside this task, it raises, or returns nothing or a transaction.
\<close>

datatype 'a call_result = Raised | Returned 'a

type_synonym 'w payment_service =
  "string \<Rightarrow> 'w \<Rightarrow> mpesa_transaction option call_result \<times> 'w"

record 'w check_state =
  world :: 'w
  requests :: "string list"
  sent :: "notification list"
  checked_count :: nat
  updated_count :: nat

definition is_pending_selected :: "datetime \<Rightarrow> mpesa_transaction \<Rightarrow> bool" where
  "is_pending_selected cutoff_time t =
     (status t = ''processing'' \<and> initiated_at t \<le> cutoff_time \<and> checkout_request_id t \<noteq> [])"

definition status_notification :: "mpesa_transaction \<Rightarrow> notification list" where
  "status_notification u =
     (if status u = ''completed'' then [PaymentConfirmationEmail (txn_id u)]
      else if status u \<in> set [''failed'', ''cancelled'', ''timeout'']
           then [PaymentFailedNotification (txn_id u)]
      else [])"

text \<open>The loop body; an exception raised by the service is logged and the loop goes on.\<close>

definition check_transaction :: "'w payment_service \<Rightarrow> mpesa_transaction \<Rightarrow> 'w check_state \<Rightarrow> 'w check_state" where
  "check_transaction service t s =
     (let s1 = s\<lparr>checked_count := checked_count s + 1\<rparr>;
          (r, w) = service (checkout_request_id t) (world s1);
          s2 = s1\<lparr>world := w, requests := requests s1 @ [checkout_request_id t]\<rparr>
      in case r of
           Raised \<Rightarrow> s2
         | Returned None \<Rightarrow> s2
         | Returned (Some u) \<Rightarrow>
             if status u \<noteq> ''processing''
             then s2\<lparr>updated_count := updated_count s2 + 1,
                     sent := sent s2 @ status_notification u\<rparr>
             else s2)"

fun check_loop :: "'w payment_service \<Rightarrow> mpesa_transaction list \<Rightarrow> 'w check_state \<Rightarrow> 'w check_state" where
  "check_loop service [] s = s"
| "check_loop service (t # ts) s = check_loop service ts (check_transaction service t s)"

definition check_pending_transactions ::
    "'w payment_service \<Rightarrow> datetime \<Rightarrow> mpesa_transaction list \<Rightarrow> 'w \<Rightarrow> 'w check_state" where
  "check_pending_transactions service now rows w =
     (let cutoff_time = now - timedelta_minutes 5;
          pending_transactions = filter (is_pending_selected cutoff_time) rows
      in check_loop service pending_transactions
           \<lparr>world = w, requests = [], sent = [], checked_count = 0, updated_count = 0\<rparr>)"

text \<open>The replies the service gives when asked about the given ids in turn.\<close>

fun service_replies :: "'w payment_service \<Rightarrow> string list \<Rightarrow> 'w \<Rightarrow> mpesa_transaction option call_result list" where
  "service_replies service [] w = []"
| "service_replies service (c # cs) w =
     (case service c w of (r, w') \<Rightarrow> r # service_replies service cs w')"

text \<open>
  The dispatch rule in the words of the specification: for a reply that carries a
  transaction no longer in progress, a confirmation when it is completed, a failure
  notice when it is failed, cancelled or timed out.
\<close>

definition expected_dispatch :: "mpesa_transaction option call_result \<Rightarrow> notification list" where
  "expected_dispatch r =
     (case r of
        Returned (Some u) \<Rightarrow>
          if status u = ''processing'' then []
          else if status u = ''completed'' then [PaymentConfirmationEmail (txn_id u)]
          else if status u = ''failed'' \<or> status u = ''cancelled'' \<or> status u = ''timeout''
               then [PaymentFailedNotification (txn_id u)]
          else []
      | _ \<Rightarrow> [])"

subsection \<open>reconcile_daily_transactions\<close>

text \<open>
  The report. Amounts are the \<open>Decimal\<close> values the task computes (the report stores
  their \<open>float\<close> renderings); the success rate is the quotient as a rational.
\<close>

record reconciliation_report =
  report_date :: date
  total_transactions :: nat
  successful :: nat
  failed :: nat
  pending :: nat
  cancelled :: nat
  gross_revenue :: decimal
  refunds :: decimal
  net_revenue :: decimal
  success_rate :: rat

definition count_where :: "('a \<Rightarrow> bool) \<Rightarrow> 'a list \<Rightarrow> nat" where
  "count_where P xs = length (filter P xs)"

definition is_successful :: "mpesa_transaction \<Rightarrow> bool" where
  "is_successful t = (status t = ''completed'' \<and> result_code t = Some 0)"

text \<open>
  \<open>date_of\<close> is the database's conversion of a timestamp to a calendar date, \<open>today\<close> the
  date the task read from the clock.
\<close>

definition reconcile_daily_transactions ::
    "(datetime \<Rightarrow> date) \<Rightarrow> date \<Rightarrow> mpesa_transaction list \<Rightarrow> mpesa_refund list \<Rightarrow> reconciliation_report" where
  "reconcile_daily_transactions date_of today rows refund_rows =
     (let txns = filter (\<lambda>t. date_of (initiated_at t) = today) rows;
          total_n = length txns;
          successful_n = count_where is_successful txns;
          failed_n = count_where (\<lambda>t. status t = ''failed'') txns;
          pending_n = count_where (\<lambda>t. status t \<in> set [''pending'', ''processing'']) txns;
          cancelled_n = count_where (\<lambda>t. status t \<in> set [''cancelled'', ''timeout'']) txns;
          total_amount = sum_list (map amount (filter is_successful txns));
          day_refunds = filter (\<lambda>r. date_of (refund_initiated_at r) = today) refund_rows;
          refund_amount =
            sum_list (map refund_amount (filter (\<lambda>r. refund_status r = ''completed'') day_refunds))
      in \<lparr>report_date = today,
          total_transactions = total_n,
          successful = successful_n,
          failed = failed_n,
          pending = pending_n,
          cancelled = cancelled_n,
          gross_revenue = total_amount,
          refunds = refund_amount,
          net_revenue = total_amount - refund_amount,
          success_rate =
            (if total_n > 0 then of_nat successful_n / of_nat total_n * 100 else 0)\<rparr>)"

subsection \<open>process_mpesa_callback_task\<close>

text \<open>
  The task framework's \<open>Task.retry\<close>, for a task run by a worker: when the retry number
  would exceed \<open>max_retries\<close> it raises the exception it was given, or
  \<open>MaxRetriesExceededError\<close> when given none; otherwise it sends the retry (with the
  countdown and the next retry number) to the queue and raises \<open>Retry\<close>. All three are
  subclasses of \<open>Exception\<close>.
\<close>

datatype task_exception = Retry | MaxRetriesExceededError | ProcessorError

record retry_message =
  countdown :: nat
  retries :: nat

definition max_retries :: nat where
  "max_retries = 3"

definition task_retry ::
    "nat \<Rightarrow> task_exception option \<Rightarrow> nat \<Rightarrow> retry_message list \<Rightarrow> task_exception \<times> retry_message list" where
  "task_retry request_retries exc cd queue =
     (if request_retries + 1 > max_retries
      then ((case exc of Some e \<Rightarrow> e | None \<Rightarrow> MaxRetriesExceededError), queue)
      else (Retry, queue @ [\<lparr>countdown = cd, retries = request_retries + 1\<rparr>]))"

text \<open>What \<open>MpesaCallbackProcessor.process_stk_callback\<close> did: returned a flag, or raised.\<close>

datatype processor_outcome = ProcessorReturned bool | ProcessorRaised

datatype task_outcome = TaskSucceeded | TaskRaised task_exception

text \<open>
  The task body. The \<open>raise self.retry(...)\<close> of the failure branch stands inside the
  \<open>try\<close> block, so the exception it raises reaches the \<open>except Exception\<close> handler, which
  calls \<open>self.retry\<close> again. The result is how the task ended and the retries it queued.
\<close>

definition process_mpesa_callback_task :: "processor_outcome \<Rightarrow> nat \<Rightarrow> task_outcome \<times> retry_message list" where
  "process_mpesa_callback_task outcome request_retries =
     (case outcome of
        ProcessorReturned True \<Rightarrow> (TaskSucceeded, [])
      | ProcessorReturned False \<Rightarrow>
          (let (e1, q1) = task_retry request_retries None (30 * 2 ^ request_retries) [];
               (e2, q2) = task_retry request_retries (Some e1) (60 * 2 ^ request_retries) q1
           in (TaskRaised e2, q2))
      | ProcessorRaised \<Rightarrow>
          (let (e2, q2) = task_retry request_retries (Some ProcessorError) (60 * 2 ^ request_retries) []
           in (TaskRaised e2, q2)))"


section \<open>Operations that write \<open>stock_quantity\<close>\<close>




subsection \<open>products/views.py: update_stock\<close>



subsection \<open>orders/serializers.py: validate_items and the stock loop of create\<close>





subsection \<open>orders/tasks.py: the restock loop of auto_cancel_unpaid_orders\<close>


subsection \<open>inventory/tasks.py: sync_product_stock_from_warehouses\<close>






subsection \<open>The operations as steps of the product table\<close>






section \<open>Sample data\<close>

text \<open>The product of the test fixtures, and variations of it used to instantiate the results.\<close>

definition headphones :: product where
  "headphones =
     \<lparr>name = ''Premium Headphones'', slug = ''premium-headphones-hp-001'', sku = ''HP-001'',
      price = 150, cost_price = None, discount_percentage = 0,
      sale_price = None, sale_starts_at = None, sale_ends_at = None,
      stock_quantity = 50, low_stock_threshold = 10,
      is_active = True, is_on_sale = False,
      preorder_available = False, backorder_allowed = False, restock_date = None,
      created_at = Some 1000, updated_at = Some 1000\<rparr>"

definition sample_clock :: clock_readings where
  "sample_clock = \<lparr>sale_check_time = 5000, created_stamp = 5001, updated_stamp = 5002\<rparr>"

definition sample_transaction :: mpesa_transaction where
  "sample_transaction =
     \<lparr>txn_id = 1, checkout_request_id = ''ws_CO_1'', status = ''processing'',
      result_code = None, result_desc = [], amount = 100,
      initiated_at = 0, failed_at = None\<rparr>"

definition sample_image :: product_image where
  "sample_image = \<lparr>image_product = 1, alt_text = [], is_primary = True, image_order = 1\<rparr>"


section \<open>Pricing\<close>

text \<open>
  C3. The current price is the sale price whenever the sale price is set (not null and
  not zero) and the sale window is active; otherwise it is the price less the
  percentage discount when that is positive, else the price. The savings amount is the
  price minus the current price.
\<close>

theorem current_price_correct:
  "current_price now p =
     (if (\<exists>s. sale_price p = Some s \<and> s \<noteq> 0) \<and> is_sale_active now p
      then the (sale_price p)
      else if discount_percentage p > 0
           then price p - price p * discount_percentage p / 100
           else price p)
   \<and> savings_amount now p = price p - current_price now p"
  by (auto simp: current_price_def final_price_def savings_amount_def split: option.splits)

text \<open>The fixture product with a 20 percent discount sells at 120 and saves 30.\<close>

theorem current_price_correct_witness:
  "current_price 5000 (headphones\<lparr>discount_percentage := 20\<rparr>) = 120
   \<and> savings_amount 5000 (headphones\<lparr>discount_percentage := 20\<rparr>) = 30"
  using current_price_correct [of 5000 "headphones\<lparr>discount_percentage := 20\<rparr>"]
  by (simp add: headphones_def)

text \<open>
  C9. When either end of the sale window is null the sale counts as active at every
  time, so a product with a sale price (not null, not zero) and at most one end set
  sells at the sale price at every time, also outside the end that is set.
\<close>

theorem sale_active_without_both_boundaries:
  "(sale_starts_at p = None \<or> sale_ends_at p = None \<longrightarrow> is_sale_active now p)
   \<and> (sale_starts_at p = None \<or> sale_ends_at p = None \<longrightarrow>
        sale_price p = Some s \<longrightarrow> s \<noteq> 0 \<longrightarrow> current_price now p = s)"
  by (auto simp: is_sale_active_def current_price_def split: option.splits)

text \<open>A sale that ended at time 500, with no start, is still active at time 900.\<close>

theorem sale_active_without_both_boundaries_witness:
  "is_sale_active 900 (headphones\<lparr>sale_price := Some 100, sale_ends_at := Some 500\<rparr>)
   \<and> current_price 900 (headphones\<lparr>sale_price := Some 100, sale_ends_at := Some 500\<rparr>) = 100"
  using sale_active_without_both_boundaries
          [of "headphones\<lparr>sale_price := Some 100, sale_ends_at := Some 500\<rparr>" 900 100]
  by (simp add: headphones_def)

section \<open>Stock status\<close>

text \<open>
  C8. The stock status is \<open>low_stock\<close> exactly when the stock is positive and at most the
  threshold, \<open>in_stock\<close> exactly when it is positive and above the threshold, and for a
  stock of zero or less it is, in this order of priority, \<open>preorder\<close>, \<open>backorder\<close>,
  \<open>out_of_stock_restock_scheduled\<close> (a restock date is set) or \<open>out_of_stock\<close>.
\<close>

theorem stock_status_cases:
  "(stock_status p = ''low_stock'' \<longleftrightarrow> 0 < stock_quantity p \<and> stock_quantity p \<le> low_stock_threshold p)
   \<and> (stock_status p = ''in_stock'' \<longleftrightarrow> stock_quantity p > 0 \<and> stock_quantity p > low_stock_threshold p)
   \<and> (stock_quantity p \<le> 0 \<longrightarrow>
        stock_status p =
          (if preorder_available p then ''preorder''
           else if backorder_allowed p then ''backorder''
           else if restock_date p \<noteq> None then ''out_of_stock_restock_scheduled''
           else ''out_of_stock''))"
  by (auto simp: stock_status_def is_in_stock_def is_low_stock_def)

theorem stock_status_cases_witness:
  "stock_status (headphones\<lparr>stock_quantity := 5\<rparr>) = ''low_stock''
   \<and> stock_status headphones = ''in_stock''
   \<and> stock_status (headphones\<lparr>stock_quantity := 0, backorder_allowed := True, restock_date := Some 7\<rparr>) = ''backorder''"
  using stock_status_cases [of "headphones\<lparr>stock_quantity := 5\<rparr>"]
        stock_status_cases [of headphones]
        stock_status_cases [of "headphones\<lparr>stock_quantity := 0, backorder_allowed := True, restock_date := Some 7\<rparr>"]
  by (simp add: headphones_def)

section \<open>Product.save\<close>

lemma auto_slug_fields:
  "sale_price (auto_slug slugify p) = sale_price p"
  "discount_percentage (auto_slug slugify p) = discount_percentage p"
  "is_on_sale (auto_slug slugify p) = is_on_sale p"
  "is_sale_active now (auto_slug slugify p) = is_sale_active now p"
  "stock_quantity (auto_slug slugify p) = stock_quantity p"
  by (simp_all add: auto_slug_def is_sale_active_def split: option.splits)

lemma decimal_truthy_iff: "decimal_truthy d \<longleftrightarrow> (\<exists>s. d = Some s \<and> s \<noteq> 0)"
  by (cases d) (simp_all add: decimal_truthy_def)

lemma auto_on_sale_eq:
  "auto_on_sale now q =
      q\<lparr>is_on_sale :=
         (if (\<exists>s. sale_price q = Some s \<and> s \<noteq> 0) \<and> is_sale_active now q then True
          else if \<not> (\<exists>s. sale_price q = Some s \<and> s \<noteq> 0) \<and> discount_percentage q = 0 then False
          else is_on_sale q)\<rparr>"
proof (cases "decimal_truthy (sale_price q) \<and> is_sale_active now q")
  case True
  then show ?thesis by (simp add: auto_on_sale_def decimal_truthy_iff)
next
  case False
  show ?thesis
  proof (cases "\<not> decimal_truthy (sale_price q) \<and> discount_percentage q = 0")
    case True
    with False show ?thesis by (simp add: auto_on_sale_def decimal_truthy_iff)
  next
    case F2: False
    have "auto_on_sale now q = q" using False F2 by (auto simp add: auto_on_sale_def)
    moreover have "(if (\<exists>s. sale_price q = Some s \<and> s \<noteq> 0) \<and> is_sale_active now q then True
          else if \<not> (\<exists>s. sale_price q = Some s \<and> s \<noteq> 0) \<and> discount_percentage q = 0 then False
          else is_on_sale q) = is_on_sale q"
      using False F2 unfolding decimal_truthy_iff by auto
    ultimately show ?thesis by simp
  qed
qed

lemma prepared_object:
  "auto_on_sale now (auto_slug slugify p) =
     p\<lparr>slug := (if slug p = [] then slugify (name p @ ''-'' @ sku p) else slug p),
       is_on_sale :=
         (if (\<exists>s. sale_price p = Some s \<and> s \<noteq> 0) \<and> is_sale_active now p then True
          else if \<not> (\<exists>s. sale_price p = Some s \<and> s \<noteq> 0) \<and> discount_percentage p = 0 then False
          else is_on_sale p)\<rparr>"
proof -
  define flag where "flag =
         (if (\<exists>s. sale_price p = Some s \<and> s \<noteq> 0) \<and> is_sale_active now p then True
          else if \<not> (\<exists>s. sale_price p = Some s \<and> s \<noteq> 0) \<and> discount_percentage p = 0 then False
          else is_on_sale p)"
  define sl where "sl = (if slug p = [] then slugify (name p @ ''-'' @ sku p) else slug p)"
  let ?q = "auto_slug slugify p"
  have q: "?q = p\<lparr>slug := sl\<rparr>"
    by (simp add: auto_slug_def sl_def)
  have r: "auto_on_sale now ?q = ?q\<lparr>is_on_sale := flag\<rparr>"
    unfolding auto_on_sale_eq [of now ?q] auto_slug_fields flag_def ..
  have "auto_on_sale now ?q = p\<lparr>slug := sl, is_on_sale := flag\<rparr>"
    unfolding r unfolding q by simp
  then show ?thesis unfolding flag_def sl_def .
qed

lemma model_save_plain:
  "model_save clock None row q =
     Inr (q\<lparr>created_at := (if row = None then Some (created_stamp clock) else created_at q),
             updated_at := Some (updated_stamp clock)\<rparr>,
          Some (q\<lparr>created_at := (if row = None then Some (created_stamp clock) else created_at q),
                  updated_at := Some (updated_stamp clock)\<rparr>))"
  by (cases row) (simp_all add: model_save_def Let_def)

lemma model_save_empty: "model_save clock (Some []) row q = Inr (q, row)"
  by (simp add: model_save_def)

lemma model_save_fields:
  "fs \<noteq> [] \<Longrightarrow> list_all (\<lambda>f. f \<in> set product_field_names) fs \<Longrightarrow>
   model_save clock (Some fs) (Some r) q =
     Inr (q\<lparr>updated_at := (if ''updated_at'' \<in> set fs then Some (updated_stamp clock) else updated_at q)\<rparr>,
          Some (store_fields fs
                  (q\<lparr>updated_at := (if ''updated_at'' \<in> set fs then Some (updated_stamp clock)
                                   else updated_at q)\<rparr>) r))"
  by (cases "''updated_at'' \<in> set fs") (simp_all add: model_save_def Let_def)

text \<open>
  Saving the fixture product, whose \<open>updated_at\<close> is 1000, stores an \<open>updated_at\<close> that
  is the clock reading 5002 and not the one given: the field is declared
  \<open>auto_now=True\<close>. And a save with \<open>update_fields=['is_featured']\<close> of a product with no
  sale price, no discount and the flag set clears the flag on the object, but the stored
  row keeps it.
\<close>

theorem Product_save_stamps_and_skips:
  "Product_save (\<lambda>s. s) sample_clock None (Some headphones) headphones
     = Inr (headphones\<lparr>updated_at := Some 5002\<rparr>, Some (headphones\<lparr>updated_at := Some 5002\<rparr>))
   \<and> updated_at headphones = Some 1000
   \<and> Product_save (\<lambda>s. s) sample_clock (Some [''is_featured'']) (Some (headphones\<lparr>is_on_sale := True\<rparr>))
        (headphones\<lparr>is_on_sale := True\<rparr>)
     = Inr (headphones, Some (headphones\<lparr>is_on_sale := True\<rparr>))"
  by (simp add: Product_save_def model_save_def auto_on_sale_def auto_slug_def headphones_def
      decimal_truthy_def sample_clock_def store_fields_def product_field_names_def Let_def)

text \<open>
  C10 (amended). \<open>Product.save\<close> first fills an empty slug and updates \<open>is_on_sale\<close> on the
  object in two cases only: true when the sale price is set (not null, not zero) and the
  sale window is active, false when the sale price is unset and the discount percentage
  is 0; in every other case the flag keeps its previous value. Without \<open>update_fields\<close>
  it then stores every field of the object as given, except that \<open>updated_at\<close> is
  stamped with the clock reading of the save, and \<open>created_at\<close> too when the row is
  inserted. With an empty \<open>update_fields\<close> nothing is stored. With a non-empty
  \<open>update_fields\<close> of field names, on an existing row, only the listed fields of the
  object are stored (\<open>updated_at\<close> stamped only when listed) and every other column of the
  row, slug and \<open>is_on_sale\<close> included, stays as it was.
\<close>

theorem Product_save_effect:
  "(let prepared =
          p\<lparr>slug := (if slug p = [] then slugify (name p @ ''-'' @ sku p) else slug p),
            is_on_sale :=
              (if (\<exists>s. sale_price p = Some s \<and> s \<noteq> 0) \<and> is_sale_active (sale_check_time clock) p
               then True
               else if \<not> (\<exists>s. sale_price p = Some s \<and> s \<noteq> 0) \<and> discount_percentage p = 0
                    then False
               else is_on_sale p)\<rparr>;
        stamped =
          prepared\<lparr>created_at := (if row = None then Some (created_stamp clock) else created_at p),
                   updated_at := Some (updated_stamp clock)\<rparr>;
        listed =
          prepared\<lparr>updated_at := (if ''updated_at'' \<in> set fs then Some (updated_stamp clock)
                                   else updated_at p)\<rparr>
    in Product_save slugify clock None row p = Inr (stamped, Some stamped)
       \<and> Product_save slugify clock (Some []) row p = Inr (prepared, row)
       \<and> (fs \<noteq> [] \<and> list_all (\<lambda>f. f \<in> set product_field_names) fs \<longrightarrow>
            Product_save slugify clock (Some fs) (Some r) p = Inr (listed, Some (store_fields fs listed r))))"
proof -
  define prepared where "prepared =
          p\<lparr>slug := (if slug p = [] then slugify (name p @ ''-'' @ sku p) else slug p),
            is_on_sale :=
              (if (\<exists>s. sale_price p = Some s \<and> s \<noteq> 0) \<and> is_sale_active (sale_check_time clock) p
               then True
               else if \<not> (\<exists>s. sale_price p = Some s \<and> s \<noteq> 0) \<and> discount_percentage p = 0
                    then False
               else is_on_sale p)\<rparr>"
  have prep: "auto_on_sale (sale_check_time clock) (auto_slug slugify p) = prepared"
    unfolding prepared_def by (rule prepared_object)
  have c: "created_at prepared = created_at p" and u: "updated_at prepared = updated_at p"
    by (simp_all add: prepared_def)
  have 1: "Product_save slugify clock None row p =
      Inr (prepared\<lparr>created_at := (if row = None then Some (created_stamp clock) else created_at p),
                   updated_at := Some (updated_stamp clock)\<rparr>,
           Some (prepared\<lparr>created_at := (if row = None then Some (created_stamp clock) else created_at p),
                   updated_at := Some (updated_stamp clock)\<rparr>))"
    unfolding Product_save_def prep model_save_plain c ..
  have 2: "Product_save slugify clock (Some []) row p = Inr (prepared, row)"
    unfolding Product_save_def prep model_save_empty ..
  have 3: "Product_save slugify clock (Some fs) (Some r) p =
      Inr (prepared\<lparr>updated_at := (if ''updated_at'' \<in> set fs then Some (updated_stamp clock)
                                   else updated_at p)\<rparr>,
           Some (store_fields fs
                  (prepared\<lparr>updated_at := (if ''updated_at'' \<in> set fs then Some (updated_stamp clock)
                                   else updated_at p)\<rparr>) r))"
    if "fs \<noteq> []" "list_all (\<lambda>f. f \<in> set product_field_names) fs"
    unfolding Product_save_def prep model_save_fields [OF that] u ..
  show ?thesis
    unfolding Let_def prepared_def [symmetric] using 1 2 3 by blast
qed

text \<open>
  A first save with a discount of 20 percent and no sale price keeps a flag that was
  true and stamps both timestamps; a save of the stock column alone stores the new stock
  and leaves the flag and the discount of the row.
\<close>

theorem Product_save_effect_witness:
  "Product_save (\<lambda>s. s) sample_clock None None (headphones\<lparr>discount_percentage := 20, is_on_sale := True\<rparr>)
     = Inr (headphones\<lparr>discount_percentage := 20, is_on_sale := True,
                        created_at := Some 5001, updated_at := Some 5002\<rparr>,
            Some (headphones\<lparr>discount_percentage := 20, is_on_sale := True,
                        created_at := Some 5001, updated_at := Some 5002\<rparr>))
   \<and> Product_save (\<lambda>s. s) sample_clock (Some [''stock_quantity'']) (Some headphones)
        (headphones\<lparr>stock_quantity := 7, discount_percentage := 20, is_on_sale := True\<rparr>)
     = Inr (headphones\<lparr>stock_quantity := 7, discount_percentage := 20, is_on_sale := True\<rparr>,
            Some (headphones\<lparr>stock_quantity := 7\<rparr>))"
  using Product_save_effect
          [where p = "headphones\<lparr>discount_percentage := 20, is_on_sale := True\<rparr>"
             and slugify = "\<lambda>s. s" and clock = sample_clock and row = None
             and fs = "[''stock_quantity'']" and r = headphones]
        Product_save_effect
          [where p = "headphones\<lparr>stock_quantity := 7, discount_percentage := 20, is_on_sale := True\<rparr>"
             and slugify = "\<lambda>s. s" and clock = sample_clock and row = "Some headphones"
             and fs = "[''stock_quantity'']" and r = headphones]
  by (simp add: headphones_def sample_clock_def store_fields_def product_field_names_def Let_def)

section \<open>One primary image per product\<close>

lemma primary_count_Nil: "primary_count q [] = 0"
  by (simp add: primary_count_def)

lemma primary_count_Cons:
  "primary_count q ((k, r) # tbl) =
     (if image_product r = q \<and> is_primary r then 1 else 0) + primary_count q tbl"
  by (simp add: primary_count_def)

lemma primary_count_snoc:
  "primary_count q (tbl @ [(k, r)]) =
     primary_count q tbl + (if image_product r = q \<and> is_primary r then 1 else 0)"
  by (simp add: primary_count_def)

lemma clear_primary_Nil: "clear_primary pid [] = []"
  by (simp add: clear_primary_def)

lemma clear_primary_Cons:
  "clear_primary pid ((k, r) # tbl) =
     (k, if image_product r = pid \<and> is_primary r then r\<lparr>is_primary := False\<rparr> else r)
       # clear_primary pid tbl"
  by (simp add: clear_primary_def)

lemma keys_clear_primary: "map fst (clear_primary pid tbl) = map fst tbl"
proof (induction tbl)
  case Nil
  show ?case by (simp add: clear_primary_Nil)
next
  case (Cons row rest)
  obtain k r where "row = (k, r)" by (cases row)
  with Cons show ?case by (simp add: clear_primary_Cons)
qed

lemma count_clear_primary_same: "primary_count pid (clear_primary pid tbl) = 0"
proof (induction tbl)
  case Nil
  show ?case by (simp add: clear_primary_Nil primary_count_Nil)
next
  case (Cons row rest)
  obtain k r where "row = (k, r)" by (cases row)
  with Cons show ?case by (simp add: clear_primary_Cons primary_count_Cons)
qed

lemma count_clear_primary_other:
  "q \<noteq> pid \<Longrightarrow> primary_count q (clear_primary pid tbl) = primary_count q tbl"
proof (induction tbl)
  case Nil
  show ?case by (simp add: clear_primary_Nil)
next
  case (Cons row rest)
  obtain k r where "row = (k, r)" by (cases row)
  with Cons show ?case by (simp add: clear_primary_Cons primary_count_Cons)
qed

lemma clear_primary_rows:
  "(j, r) \<in> set (clear_primary pid tbl) \<Longrightarrow> image_product r = pid \<Longrightarrow> \<not> is_primary r"
proof (induction tbl)
  case Nil
  then show ?case by (simp add: clear_primary_Nil)
next
  case (Cons row rest)
  obtain k x where row: "row = (k, x)" by (cases row)
  let ?x = "if image_product x = pid \<and> is_primary x then x\<lparr>is_primary := False\<rparr> else x"
  from Cons.prems(1) row
  have "(j, r) = (k, ?x) \<or> (j, r) \<in> set (clear_primary pid rest)"
    by (simp only: clear_primary_Cons set_simps insert_iff)
  then show ?case
  proof
    assume "(j, r) = (k, ?x)"
    then have r: "r = ?x" by (simp only: prod.inject)
    show ?thesis
    proof (cases "image_product x = pid \<and> is_primary x")
      case True
      then have "r = x\<lparr>is_primary := False\<rparr>" using r by simp
      then show ?thesis by simp
    next
      case False
      then have "r = x" using r by simp
      with False Cons.prems(2) show ?thesis by blast
    qed
  next
    assume "(j, r) \<in> set (clear_primary pid rest)"
    then show ?thesis using Cons.IH Cons.prems(2) by blast
  qed
qed

lemma fold_max_ge_start: "a \<le> fold max xs (a::nat)"
proof (induction xs arbitrary: a)
  case Nil
  show ?case by simp
next
  case (Cons y ys)
  have "a \<le> max y a" by simp
  also have "\<dots> \<le> fold max ys (max y a)" by (rule Cons.IH)
  finally show ?case by simp
qed

lemma fold_max_ge_member: "x \<in> set xs \<Longrightarrow> x \<le> fold max xs (a::nat)"
proof (induction xs arbitrary: a)
  case Nil
  then show ?case by simp
next
  case (Cons y ys)
  show ?case
  proof (cases "x = y")
    case True
    have "y \<le> max y a" by simp
    also have "\<dots> \<le> fold max ys (max y a)" by (rule fold_max_ge_start)
    finally show ?thesis using True by simp
  next
    case False
    with Cons.prems have "x \<in> set ys" by simp
    then show ?thesis using Cons.IH by simp
  qed
qed

lemma next_pk_fresh: "next_pk tbl \<notin> set (map fst tbl)"
proof
  assume "next_pk tbl \<in> set (map fst tbl)"
  then have "next_pk tbl \<le> fold max (map fst tbl) 0" by (rule fold_max_ge_member)
  then show False by (simp add: next_pk_def)
qed

lemma replace_absent:
  "k \<notin> set (map fst tbl) \<Longrightarrow> map (\<lambda>(j, r). if j = k then (j, img) else (j, r)) tbl = tbl"
  by (induction tbl) auto

lemma keys_replace:
  "map fst (map (\<lambda>(j, r). if j = k then (j, img) else (j, r)) tbl) = map fst tbl"
  by (induction tbl) auto

lemma rows_replace:
  "(j, r) \<in> set (map (\<lambda>(j, r). if j = k then (j, img) else (j, r)) tbl) \<Longrightarrow> j \<noteq> k \<Longrightarrow>
   (j, r) \<in> set tbl"
  by (induction tbl) (auto split: if_splits)

lemma count_replace:
  "distinct (map fst tbl) \<Longrightarrow>
   primary_count q (map (\<lambda>(j, r). if j = k then (j, img) else (j, r)) tbl)
     \<le> primary_count q tbl + (if image_product img = q \<and> is_primary img then 1 else 0)"
proof (induction tbl)
  case Nil
  then show ?case by (simp add: primary_count_Nil)
next
  case (Cons row rest)
  obtain j r where row: "row = (j, r)" by (cases row)
  show ?case
  proof (cases "j = k")
    case True
    with Cons.prems row have "k \<notin> set (map fst rest)" by simp
    then have "map (\<lambda>(j, r). if j = k then (j, img) else (j, r)) rest = rest"
      by (rule replace_absent)
    then show ?thesis using True row by (simp add: primary_count_Cons)
  next
    case False
    from Cons.prems have "distinct (map fst rest)" by simp
    from Cons.IH [OF this] show ?thesis using False row by (simp add: primary_count_Cons)
  qed
qed

lemma store_image_cases:
  "(\<exists>k. k \<notin> set (map fst tbl) \<and> store_image pk img tbl = (k, tbl @ [(k, img)]))
   \<or> (\<exists>k. k \<in> set (map fst tbl)
          \<and> store_image pk img tbl = (k, map (\<lambda>(j, r). if j = k then (j, img) else (j, r)) tbl))"
proof (cases pk)
  case None
  have "store_image pk img tbl = (next_pk tbl, tbl @ [(next_pk tbl, img)])"
    using None by (simp add: store_image_def Let_def)
  with next_pk_fresh [of tbl] show ?thesis by blast
next
  case (Some k)
  show ?thesis
  proof (cases "k \<in> set (map fst tbl)")
    case True
    then have "store_image pk img tbl = (k, map (\<lambda>(j, r). if j = k then (j, img) else (j, r)) tbl)"
      using Some by (simp add: store_image_def)
    with True show ?thesis by blast
  next
    case False
    then have "store_image pk img tbl = (k, tbl @ [(k, img)])"
      using Some by (simp add: store_image_def)
    with False show ?thesis by blast
  qed
qed

lemma store_image_keys:
  assumes "distinct (map fst tbl)"
  shows "distinct (map fst (snd (store_image pk img tbl)))"
  using store_image_cases [of tbl pk img]
proof (elim disjE exE conjE)
  fix k assume "k \<notin> set (map fst tbl)" "store_image pk img tbl = (k, tbl @ [(k, img)])"
  then show ?thesis using assms by simp
next
  fix k assume "store_image pk img tbl = (k, map (\<lambda>(j, r). if j = k then (j, img) else (j, r)) tbl)"
  then show ?thesis using assms by (simp only: snd_conv keys_replace)
qed

lemma store_image_count:
  assumes "distinct (map fst tbl)"
  shows "primary_count q (snd (store_image pk img tbl))
           \<le> primary_count q tbl + (if image_product img = q \<and> is_primary img then 1 else 0)"
  using store_image_cases [of tbl pk img]
proof (elim disjE exE conjE)
  fix k assume "store_image pk img tbl = (k, tbl @ [(k, img)])"
  then show ?thesis by (simp add: primary_count_snoc)
next
  fix k assume "store_image pk img tbl = (k, map (\<lambda>(j, r). if j = k then (j, img) else (j, r)) tbl)"
  then show ?thesis using count_replace [OF assms, of q k img] by (simp only: snd_conv)
qed

lemma store_image_other_rows:
  assumes "(j, r) \<in> set (snd (store_image pk img tbl))" and "j \<noteq> fst (store_image pk img tbl)"
  shows "(j, r) \<in> set tbl"
  using store_image_cases [of tbl pk img]
proof (elim disjE exE conjE)
  fix k assume "store_image pk img tbl = (k, tbl @ [(k, img)])"
  then show ?thesis using assms by auto
next
  fix k assume "store_image pk img tbl = (k, map (\<lambda>(j, r). if j = k then (j, img) else (j, r)) tbl)"
  then show ?thesis using assms rows_replace [of j r k img tbl] by simp
qed

lemma ProductImage_save_keys:
  "distinct (map fst tbl) \<Longrightarrow> distinct (map fst (snd (ProductImage_save pk img tbl)))"
  unfolding ProductImage_save_def
  by (rule store_image_keys) (simp add: keys_clear_primary)

lemma ProductImage_save_count:
  assumes d: "distinct (map fst tbl)" and inv: "\<forall>q. primary_count q tbl \<le> 1"
  shows "primary_count q (snd (ProductImage_save pk img tbl)) \<le> 1"
proof (cases "is_primary img")
  case True
  let ?t = "clear_primary (image_product img) tbl"
  have d': "distinct (map fst ?t)" using d by (simp add: keys_clear_primary)
  have le: "primary_count q (snd (store_image pk img ?t))
      \<le> primary_count q ?t + (if image_product img = q \<and> is_primary img then 1 else 0)"
    by (rule store_image_count [OF d'])
  have save: "ProductImage_save pk img tbl = store_image pk img ?t"
    using True by (simp add: ProductImage_save_def)
  show ?thesis
  proof (cases "q = image_product img")
    case q: True
    have "primary_count q ?t = 0" using q by (simp add: count_clear_primary_same)
    then show ?thesis using le unfolding save by (simp split: if_splits)
  next
    case q: False
    have "primary_count q ?t = primary_count q tbl" using q by (simp add: count_clear_primary_other)
    moreover have "primary_count q tbl \<le> 1" using inv by simp
    ultimately show ?thesis using le q unfolding save by (simp split: if_splits)
  qed
next
  case False
  have "primary_count q (snd (store_image pk img tbl))
      \<le> primary_count q tbl + (if image_product img = q \<and> is_primary img then 1 else 0)"
    by (rule store_image_count [OF d])
  moreover have "primary_count q tbl \<le> 1" using inv by simp
  ultimately show ?thesis using False by (simp add: ProductImage_save_def)
qed

lemma save_images_invariant:
  "distinct (map fst tbl) \<Longrightarrow> \<forall>q. primary_count q tbl \<le> 1 \<Longrightarrow>
   distinct (map fst (save_images ops tbl)) \<and> (\<forall>q. primary_count q (save_images ops tbl) \<le> 1)"
proof (induction ops arbitrary: tbl)
  case Nil
  then show ?case by simp
next
  case (Cons op ops)
  obtain pk img where op: "op = (pk, img)" by (cases op)
  let ?t = "snd (ProductImage_save pk img tbl)"
  have "distinct (map fst ?t)" using Cons.prems(1) by (rule ProductImage_save_keys)
  moreover have "\<forall>q. primary_count q ?t \<le> 1"
    using ProductImage_save_count [OF Cons.prems] by blast
  ultimately show ?case using Cons.IH [of ?t] op by simp
qed

lemma ProductImage_save_clears_others:
  assumes "is_primary img"
    and "(j, r) \<in> set (snd (ProductImage_save pk img tbl))"
    and "j \<noteq> fst (ProductImage_save pk img tbl)"
    and "image_product r = image_product img"
  shows "\<not> is_primary r"
proof -
  have save: "ProductImage_save pk img tbl = store_image pk img (clear_primary (image_product img) tbl)"
    using assms(1) by (simp add: ProductImage_save_def)
  from assms(2,3) have "(j, r) \<in> set (clear_primary (image_product img) tbl)"
    unfolding save by (rule store_image_other_rows)
  then show ?thesis using assms(4) by (rule clear_primary_rows)
qed

text \<open>
  C6. After any sequence of \<open>ProductImage\<close> save operations every product has at most
  one image with \<open>is_primary\<close> true, starting from an empty table or from any table that
  has the property; and saving an image with \<open>is_primary\<close> set leaves no other image of
  the same product with the flag.
\<close>

theorem one_primary_image_per_product:
  "(\<forall>pid. primary_count pid (save_images ops []) \<le> 1)
   \<and> (distinct (map fst tbl) \<and> (\<forall>pid. primary_count pid tbl \<le> 1) \<longrightarrow>
        (\<forall>pid. primary_count pid (save_images ops tbl) \<le> 1))
   \<and> (is_primary img \<longrightarrow>
        (\<forall>(j, r) \<in> set (snd (ProductImage_save pk img tbl)).
           j \<noteq> fst (ProductImage_save pk img tbl) \<and> image_product r = image_product img
             \<longrightarrow> \<not> is_primary r))"
proof (intro conjI impI)
  have "distinct (map fst ([] :: image_table))" by simp
  moreover have "\<forall>pid. primary_count pid [] \<le> 1" by (simp add: primary_count_Nil)
  ultimately show "\<forall>pid. primary_count pid (save_images ops []) \<le> 1"
    using save_images_invariant [of "[]" ops] by blast
next
  assume "distinct (map fst tbl) \<and> (\<forall>pid. primary_count pid tbl \<le> 1)"
  then show "\<forall>pid. primary_count pid (save_images ops tbl) \<le> 1"
    using save_images_invariant [of tbl ops] by blast
next
  assume prim: "is_primary img"
  show "\<forall>(j, r) \<in> set (snd (ProductImage_save pk img tbl)).
                 j \<noteq> fst (ProductImage_save pk img tbl) \<and> image_product r = image_product img
                   \<longrightarrow> \<not> is_primary r"
  proof (intro ballI)
    fix row assume row: "row \<in> set (snd (ProductImage_save pk img tbl))"
    obtain j r where jr: "row = (j, r)" by (cases row)
    have "j \<noteq> fst (ProductImage_save pk img tbl) \<and> image_product r = image_product img
            \<longrightarrow> \<not> is_primary r"
      using ProductImage_save_clears_others [OF prim, of j r pk tbl] row jr by simp
    then show "case row of (j, r) \<Rightarrow>
                 j \<noteq> fst (ProductImage_save pk img tbl) \<and> image_product r = image_product img
                   \<longrightarrow> \<not> is_primary r"
      using jr by simp
  qed
qed

text \<open>
  With one primary image of product 1 in the table, saving a second new primary image
  of that product clears the first, as the test \<open>test_only_one_primary_image\<close> expects.
\<close>

theorem one_primary_image_per_product_witness:
  "distinct (map fst [(1::nat, sample_image)])
   \<and> primary_count 1 [(1, sample_image)] = 1
   \<and> save_images [(None, sample_image\<lparr>image_order := 2\<rparr>)] [(1, sample_image)]
       = [(1, sample_image\<lparr>is_primary := False\<rparr>), (2, sample_image\<lparr>image_order := 2\<rparr>)]
   \<and> primary_count 1 (save_images [(None, sample_image\<lparr>image_order := 2\<rparr>)] [(1, sample_image)]) = 1"
  using one_primary_image_per_product
          [where tbl = "[(1, sample_image)]" and ops = "[(None, sample_image\<lparr>image_order := 2\<rparr>)]"
             and img = "sample_image\<lparr>image_order := 2\<rparr>" and pk = None]
  by (simp add: primary_count_def ProductImage_save_def store_image_def clear_primary_def
        next_pk_def sample_image_def Let_def)

section \<open>Retries of the callback task\<close>

lemma task_retry_within_limit:
  "request_retries < 3 \<Longrightarrow>
   task_retry request_retries exc cd queue =
     (Retry, queue @ [\<lparr>countdown = cd, retries = request_retries + 1\<rparr>])"
  by (simp add: task_retry_def max_retries_def)

lemma task_retry_exhausted:
  "3 \<le> request_retries \<Longrightarrow>
   task_retry request_retries exc cd queue =
     ((case exc of Some e \<Rightarrow> e | None \<Rightarrow> MaxRetriesExceededError), queue)"
  by (simp add: task_retry_def max_retries_def)

lemma callback_failure_queues_twice:
  "request_retries < 3 \<Longrightarrow>
   process_mpesa_callback_task (ProcessorReturned False) request_retries =
     (TaskRaised Retry,
      [\<lparr>countdown = 30 * 2 ^ request_retries, retries = request_retries + 1\<rparr>,
       \<lparr>countdown = 60 * 2 ^ request_retries, retries = request_retries + 1\<rparr>])"
  by (simp add: process_mpesa_callback_task_def task_retry_within_limit)

lemma callback_exception_queues_once:
  "request_retries < 3 \<Longrightarrow>
   process_mpesa_callback_task ProcessorRaised request_retries =
     (TaskRaised Retry, [\<lparr>countdown = 60 * 2 ^ request_retries, retries = request_retries + 1\<rparr>])"
  by (simp add: process_mpesa_callback_task_def task_retry_within_limit)

lemma callback_success_queues_nothing:
  "process_mpesa_callback_task (ProcessorReturned True) request_retries = (TaskSucceeded, [])"
  by (simp add: process_mpesa_callback_task_def)

lemma callback_gives_up:
  "3 \<le> request_retries \<Longrightarrow>
   snd (process_mpesa_callback_task outcome request_retries) = []"
  by (cases outcome)
     (simp_all add: process_mpesa_callback_task_def task_retry_exhausted split: bool.splits)

text \<open>
  C5. Retries of the callback task, at most 3. A success queues no retry; a raised
  exception queues one retry with a countdown of 60 seconds doubled per retry number; at
  retry number 3 nothing more is queued and the task fails. A reported failure (the
  processor returns \<open>False\<close>) does not queue the single retry with a countdown of 30
  seconds doubled per retry number: the \<open>Retry\<close> raised by the first \<open>self.retry\<close> is
  caught by \<open>except Exception\<close>, which calls \<open>self.retry\<close> again, so two retries are
  queued, one with countdown 30 and one with countdown 60 at retry number 0, and 120 and
  240 at retry number 2.
\<close>

theorem reported_failure_queues_two_retries:
  "process_mpesa_callback_task (ProcessorReturned False) 0 =
     (TaskRaised Retry, [\<lparr>countdown = 30, retries = 1\<rparr>, \<lparr>countdown = 60, retries = 1\<rparr>])
   \<and> process_mpesa_callback_task (ProcessorReturned False) 2 =
     (TaskRaised Retry, [\<lparr>countdown = 120, retries = 3\<rparr>, \<lparr>countdown = 240, retries = 3\<rparr>])
   \<and> process_mpesa_callback_task ProcessorRaised 0 =
     (TaskRaised Retry, [\<lparr>countdown = 60, retries = 1\<rparr>])
   \<and> process_mpesa_callback_task (ProcessorReturned True) 0 = (TaskSucceeded, [])
   \<and> process_mpesa_callback_task (ProcessorReturned False) 3 = (TaskRaised MaxRetriesExceededError, [])
   \<and> process_mpesa_callback_task ProcessorRaised 3 = (TaskRaised ProcessorError, [])"
  by (simp add: process_mpesa_callback_task_def task_retry_def max_retries_def)

section \<open>Daily reconciliation\<close>

lemma count_where_Nil: "count_where P [] = 0"
  by (simp add: count_where_def)

lemma count_where_Cons: "count_where P (x # xs) = (if P x then 1 else 0) + count_where P xs"
  by (simp add: count_where_def)

lemma outcome_counts_le:
  "count_where is_successful xs
     + count_where (\<lambda>t. status t = ''failed'') xs
     + count_where (\<lambda>t. status t \<in> set [''pending'', ''processing'']) xs
     + count_where (\<lambda>t. status t \<in> set [''cancelled'', ''timeout'']) xs
   \<le> length xs"
proof (induction xs)
  case Nil
  show ?case by (simp add: count_where_Nil)
next
  case (Cons x xs)
  have "(if is_successful x then 1 else 0)
        + (if status x = ''failed'' then 1 else 0)
        + (if status x \<in> set [''pending'', ''processing''] then 1 else 0)
        + (if status x \<in> set [''cancelled'', ''timeout''] then 1 else (0::nat)) \<le> 1"
    by (auto simp add: is_successful_def)
  with Cons.IH show ?case by (simp only: count_where_Cons list.size)
qed

lemma outcome_counts_eq:
  "\<forall>t \<in> set xs. status t \<in> set transaction_statuses
                  \<and> (status t = ''completed'' \<longrightarrow> result_code t = Some 0) \<Longrightarrow>
   count_where is_successful xs
     + count_where (\<lambda>t. status t = ''failed'') xs
     + count_where (\<lambda>t. status t \<in> set [''pending'', ''processing'']) xs
     + count_where (\<lambda>t. status t \<in> set [''cancelled'', ''timeout'']) xs
   = length xs"
proof (induction xs)
  case Nil
  show ?case by (simp add: count_where_Nil)
next
  case (Cons x xs)
  from Cons.prems have x: "status x \<in> set transaction_statuses"
    and c: "status x = ''completed'' \<longrightarrow> result_code x = Some 0"
    and rest: "\<forall>t \<in> set xs. status t \<in> set transaction_statuses
                  \<and> (status t = ''completed'' \<longrightarrow> result_code t = Some 0)"
    by simp_all
  have "(if is_successful x then 1 else 0)
        + (if status x = ''failed'' then 1 else 0)
        + (if status x \<in> set [''pending'', ''processing''] then 1 else 0)
        + (if status x \<in> set [''cancelled'', ''timeout''] then 1 else (0::nat)) = 1"
    using x c by (auto simp add: is_successful_def transaction_statuses_def)
  with Cons.IH [OF rest] show ?case by (simp only: count_where_Cons list.size)
qed

text \<open>
  One transaction of the day with status \<open>completed\<close> and no result code, amount 100:
  the total is 1, the four counts add up to 0, and the gross revenue is 0, not the sum
  of the completed amounts.
\<close>

theorem reconcile_skips_completed_without_result_code:
  "total_transactions
     (reconcile_daily_transactions (\<lambda>t. t div 86400000000) 0
        [sample_transaction\<lparr>status := ''completed''\<rparr>] []) = 1
   \<and> successful
       (reconcile_daily_transactions (\<lambda>t. t div 86400000000) 0
          [sample_transaction\<lparr>status := ''completed''\<rparr>] []) = 0
   \<and> failed
       (reconcile_daily_transactions (\<lambda>t. t div 86400000000) 0
          [sample_transaction\<lparr>status := ''completed''\<rparr>] []) = 0
   \<and> pending
       (reconcile_daily_transactions (\<lambda>t. t div 86400000000) 0
          [sample_transaction\<lparr>status := ''completed''\<rparr>] []) = 0
   \<and> cancelled
       (reconcile_daily_transactions (\<lambda>t. t div 86400000000) 0
          [sample_transaction\<lparr>status := ''completed''\<rparr>] []) = 0
   \<and> gross_revenue
       (reconcile_daily_transactions (\<lambda>t. t div 86400000000) 0
          [sample_transaction\<lparr>status := ''completed''\<rparr>] []) = 0
   \<and> amount (sample_transaction\<lparr>status := ''completed''\<rparr>) = 100"
  by (simp add: reconcile_daily_transactions_def count_where_def is_successful_def
        sample_transaction_def Let_def)

text \<open>
  C4 (amended). The daily reconciliation takes the transactions initiated that day. It
  counts as successful those with status \<open>completed\<close> and result code 0, as failed those
  with status \<open>failed\<close>, as pending those \<open>pending\<close> or \<open>processing\<close>, as cancelled those
  \<open>cancelled\<close> or \<open>timeout\<close>. The four counts never exceed the total, and they add up to
  the total when every transaction of the day has one of the six statuses and every
  completed one has result code 0. Gross revenue is the sum of the amounts of the
  successful transactions, net revenue is gross revenue minus the sum of the amounts of
  the day's completed refunds, and the success rate is 0 when there are no transactions.
\<close>

theorem reconcile_daily_transactions_report:
  "(let txns = filter (\<lambda>t. date_of (initiated_at t) = today) rows;
        day_refunds = filter (\<lambda>r. date_of (refund_initiated_at r) = today) refund_rows;
        report = reconcile_daily_transactions date_of today rows refund_rows
    in total_transactions report = length txns
       \<and> successful report
           = length (filter (\<lambda>t. status t = ''completed'' \<and> result_code t = Some 0) txns)
       \<and> failed report = length (filter (\<lambda>t. status t = ''failed'') txns)
       \<and> pending report
           = length (filter (\<lambda>t. status t = ''pending'' \<or> status t = ''processing'') txns)
       \<and> cancelled report
           = length (filter (\<lambda>t. status t = ''cancelled'' \<or> status t = ''timeout'') txns)
       \<and> successful report + failed report + pending report + cancelled report
           \<le> total_transactions report
       \<and> ((\<forall>t \<in> set txns. status t \<in> set transaction_statuses
                            \<and> (status t = ''completed'' \<longrightarrow> result_code t = Some 0)) \<longrightarrow>
            successful report + failed report + pending report + cancelled report
              = total_transactions report)
       \<and> gross_revenue report
           = sum_list (map amount
               (filter (\<lambda>t. status t = ''completed'' \<and> result_code t = Some 0) txns))
       \<and> net_revenue report
           = gross_revenue report
             - sum_list (map refund_amount (filter (\<lambda>r. refund_status r = ''completed'') day_refunds))
       \<and> (total_transactions report = 0 \<longrightarrow> success_rate report = 0))"
proof -
  define txns where "txns = filter (\<lambda>t. date_of (initiated_at t) = today) rows"
  define day_refunds where
    "day_refunds = filter (\<lambda>r. date_of (refund_initiated_at r) = today) refund_rows"
  define report where "report = reconcile_daily_transactions date_of today rows refund_rows"
  have succ: "is_successful = (\<lambda>t. status t = ''completed'' \<and> result_code t = Some 0)"
    by (rule ext) (simp add: is_successful_def)
  have t: "total_transactions report = length txns"
    and s: "successful report = count_where is_successful txns"
    and f: "failed report = count_where (\<lambda>t. status t = ''failed'') txns"
    and p: "pending report = count_where (\<lambda>t. status t \<in> set [''pending'', ''processing'']) txns"
    and c: "cancelled report = count_where (\<lambda>t. status t \<in> set [''cancelled'', ''timeout'']) txns"
    and g: "gross_revenue report = sum_list (map amount (filter is_successful txns))"
    and n: "net_revenue report
              = gross_revenue report
                - sum_list (map refund_amount
                    (filter (\<lambda>r. refund_status r = ''completed'') day_refunds))"
    and r: "total_transactions report = 0 \<longrightarrow> success_rate report = 0"
    by (simp_all add: report_def txns_def day_refunds_def reconcile_daily_transactions_def Let_def)
  have le: "successful report + failed report + pending report + cancelled report
              \<le> total_transactions report"
    unfolding t s f p c by (rule outcome_counts_le)
  have eq: "successful report + failed report + pending report + cancelled report
              = total_transactions report"
    if "\<forall>t \<in> set txns. status t \<in> set transaction_statuses
                            \<and> (status t = ''completed'' \<longrightarrow> result_code t = Some 0)"
    unfolding t s f p c using that by (rule outcome_counts_eq)
  have s': "successful report
           = length (filter (\<lambda>t. status t = ''completed'' \<and> result_code t = Some 0) txns)"
    unfolding s count_where_def succ ..
  have f': "failed report = length (filter (\<lambda>t. status t = ''failed'') txns)"
    unfolding f count_where_def ..
  have p': "pending report
           = length (filter (\<lambda>t. status t = ''pending'' \<or> status t = ''processing'') txns)"
    unfolding p count_where_def by simp
  have c': "cancelled report
           = length (filter (\<lambda>t. status t = ''cancelled'' \<or> status t = ''timeout'') txns)"
    unfolding c count_where_def by simp
  have g': "gross_revenue report
           = sum_list (map amount
               (filter (\<lambda>t. status t = ''completed'' \<and> result_code t = Some 0) txns))"
    unfolding g succ ..
  show ?thesis
    unfolding Let_def txns_def [symmetric] day_refunds_def [symmetric] report_def [symmetric]
    using t s' f' p' c' le eq g' n r by blast
qed

text \<open>
  A day with a completed transaction of 100 (result code 0), a failed one, one still
  processing and one timed out, and a completed refund of 30: the counts are 1, 1, 1, 1
  of 4, the net revenue is 70, and the success rate is 25.
\<close>

theorem reconcile_daily_transactions_report_witness:
  "reconcile_daily_transactions (\<lambda>t. t div 86400000000) 0
     [sample_transaction\<lparr>status := ''completed'', result_code := Some 0\<rparr>,
      sample_transaction\<lparr>txn_id := 2, status := ''failed'', result_code := Some 1\<rparr>,
      sample_transaction\<lparr>txn_id := 3\<rparr>,
      sample_transaction\<lparr>txn_id := 4, status := ''timeout''\<rparr>]
     [\<lparr>refund_status = ''completed'', refund_amount = 30, refund_initiated_at = 5\<rparr>]
   = \<lparr>report_date = 0, total_transactions = 4, successful = 1, failed = 1, pending = 1,
      cancelled = 1, gross_revenue = 100, refunds = 30, net_revenue = 70, success_rate = 25\<rparr>"
  using reconcile_daily_transactions_report
          [where date_of = "\<lambda>t. t div 86400000000" and today = 0
             and rows = "[sample_transaction\<lparr>status := ''completed'', result_code := Some 0\<rparr>,
                          sample_transaction\<lparr>txn_id := 2, status := ''failed'', result_code := Some 1\<rparr>,
                          sample_transaction\<lparr>txn_id := 3\<rparr>,
                          sample_transaction\<lparr>txn_id := 4, status := ''timeout''\<rparr>]"
             and refund_rows = "[\<lparr>refund_status = ''completed'', refund_amount = 30,
                                  refund_initiated_at = 5\<rparr>]"]
  by (simp add: reconcile_daily_transactions_def count_where_def is_successful_def
        sample_transaction_def Let_def)

section \<open>The timeout sweep\<close>

lemma save_transaction_replace:
  assumes "distinct (map txn_id (pre @ x # xs))" and "txn_id x' = txn_id x"
  shows "save_transaction x' (pre @ x # xs) = pre @ x' # xs"
proof -
  from assms(1) have np: "txn_id x \<notin> txn_id ` set pre" and nx: "txn_id x \<notin> txn_id ` set xs"
    by auto
  have pre: "\<forall>r \<in> set pre. txn_id r \<noteq> txn_id x"
    using np by (metis imageI)
  have xs: "\<forall>r \<in> set xs. txn_id r \<noteq> txn_id x"
    using nx by (metis imageI)
  have a: "map (\<lambda>r. if txn_id r = txn_id x then x' else r) pre = pre"
    using pre by (simp add: map_idI)
  have b: "map (\<lambda>r. if txn_id r = txn_id x then x' else r) xs = xs"
    using xs by (simp add: map_idI)
  show ?thesis
    by (simp add: save_transaction_def assms(2) a b)
qed

lemma transactions_timeout_transaction:
  "transactions (timeout_transaction stamp t s) =
     save_transaction
       (t\<lparr>status := ''timeout'',
          result_desc := ''Transaction timed out - no response from M-Pesa'',
          failed_at := Some stamp\<rparr>)
       (transactions s)"
  by (simp add: timeout_transaction_def Let_def)

lemma timeout_count_timeout_transaction:
  "timeout_count (timeout_transaction stamp t s) = timeout_count s + 1"
  by (simp add: timeout_transaction_def Let_def)

lemma timeout_count_loop:
  "timeout_count (timeout_loop clock k ts s) = timeout_count s + length ts"
  by (induction ts arbitrary: k s) (simp_all add: timeout_count_timeout_transaction)

lemma timeout_loop_rows:
  assumes "distinct (map txn_id (pre @ xs))" and "transactions s = pre @ xs"
  shows "\<exists>ys. transactions (timeout_loop clock k (filter P xs) s) = pre @ ys
           \<and> length ys = length xs
           \<and> (\<forall>i < length xs.
                 ys ! i =
                   (if P (xs ! i)
                    then (xs ! i)\<lparr>status := ''timeout'',
                           result_desc := ''Transaction timed out - no response from M-Pesa'',
                           failed_at := Some (clock (k + length (filter P (take i xs))))\<rparr>
                    else xs ! i))"
  using assms
proof (induction xs arbitrary: pre k s)
  case Nil
  then show ?case by simp
next
  case (Cons x xs)
  show ?case
  proof (cases "P x")
    case True
    define x' where
      "x' = x\<lparr>status := ''timeout'',
               result_desc := ''Transaction timed out - no response from M-Pesa'',
               failed_at := Some (clock k)\<rparr>"
    define s1 where "s1 = timeout_transaction (clock k) x s"
    have id: "txn_id x' = txn_id x" by (simp add: x'_def)
    have t1: "transactions s1 = (pre @ [x']) @ xs"
      unfolding s1_def transactions_timeout_transaction Cons.prems(2) x'_def [symmetric]
      using save_transaction_replace [OF Cons.prems(1) id] by simp
    have d1: "distinct (map txn_id ((pre @ [x']) @ xs))"
      using Cons.prems(1) by (simp add: id)
    from Cons.IH [OF d1 t1, of "Suc k"] obtain ys where
      ys: "transactions (timeout_loop clock (Suc k) (filter P xs) s1) = (pre @ [x']) @ ys"
      and len: "length ys = length xs"
      and nth: "\<forall>i < length xs.
                 ys ! i =
                   (if P (xs ! i)
                    then (xs ! i)\<lparr>status := ''timeout'',
                           result_desc := ''Transaction timed out - no response from M-Pesa'',
                           failed_at := Some (clock (Suc k + length (filter P (take i xs))))\<rparr>
                    else xs ! i)"
      by blast
    have loop: "timeout_loop clock k (filter P (x # xs)) s
                  = timeout_loop clock (Suc k) (filter P xs) s1"
      using True by (simp add: s1_def)
    have "\<forall>i < length (x # xs).
            (x' # ys) ! i =
              (if P ((x # xs) ! i)
               then ((x # xs) ! i)\<lparr>status := ''timeout'',
                      result_desc := ''Transaction timed out - no response from M-Pesa'',
                      failed_at := Some (clock (k + length (filter P (take i (x # xs)))))\<rparr>
               else (x # xs) ! i)"
    proof (intro allI impI)
      fix i assume i: "i < length (x # xs)"
      show "(x' # ys) ! i =
              (if P ((x # xs) ! i)
               then ((x # xs) ! i)\<lparr>status := ''timeout'',
                      result_desc := ''Transaction timed out - no response from M-Pesa'',
                      failed_at := Some (clock (k + length (filter P (take i (x # xs)))))\<rparr>
               else (x # xs) ! i)"
      proof (cases i)
        case 0
        then show ?thesis using True by (simp add: x'_def)
      next
        case (Suc j)
        with i have "j < length xs" by simp
        with nth have "ys ! j =
                   (if P (xs ! j)
                    then (xs ! j)\<lparr>status := ''timeout'',
                           result_desc := ''Transaction timed out - no response from M-Pesa'',
                           failed_at := Some (clock (Suc k + length (filter P (take j xs))))\<rparr>
                    else xs ! j)"
          by blast
        then show ?thesis using True Suc by simp
      qed
    qed
    moreover have "transactions (timeout_loop clock k (filter P (x # xs)) s) = pre @ (x' # ys)"
      unfolding loop ys by simp
    moreover have "length (x' # ys) = length (x # xs)" using len by simp
    ultimately show ?thesis by blast
  next
    case False
    have t1: "transactions s = (pre @ [x]) @ xs"
      using Cons.prems(2) by simp
    have d1: "distinct (map txn_id ((pre @ [x]) @ xs))"
      using Cons.prems(1) by simp
    from Cons.IH [OF d1 t1, of k] obtain ys where
      ys: "transactions (timeout_loop clock k (filter P xs) s) = (pre @ [x]) @ ys"
      and len: "length ys = length xs"
      and nth: "\<forall>i < length xs.
                 ys ! i =
                   (if P (xs ! i)
                    then (xs ! i)\<lparr>status := ''timeout'',
                           result_desc := ''Transaction timed out - no response from M-Pesa'',
                           failed_at := Some (clock (k + length (filter P (take i xs))))\<rparr>
                    else xs ! i)"
      by blast
    have loop: "timeout_loop clock k (filter P (x # xs)) s
                  = timeout_loop clock k (filter P xs) s"
      using False by simp
    have "\<forall>i < length (x # xs).
            (x # ys) ! i =
              (if P ((x # xs) ! i)
               then ((x # xs) ! i)\<lparr>status := ''timeout'',
                      result_desc := ''Transaction timed out - no response from M-Pesa'',
                      failed_at := Some (clock (k + length (filter P (take i (x # xs)))))\<rparr>
               else (x # xs) ! i)"
    proof (intro allI impI)
      fix i assume i: "i < length (x # xs)"
      show "(x # ys) ! i =
              (if P ((x # xs) ! i)
               then ((x # xs) ! i)\<lparr>status := ''timeout'',
                      result_desc := ''Transaction timed out - no response from M-Pesa'',
                      failed_at := Some (clock (k + length (filter P (take i (x # xs)))))\<rparr>
               else (x # xs) ! i)"
      proof (cases i)
        case 0
        then show ?thesis using False by simp
      next
        case (Suc j)
        with i have "j < length xs" by simp
        with nth have "ys ! j =
                   (if P (xs ! j)
                    then (xs ! j)\<lparr>status := ''timeout'',
                           result_desc := ''Transaction timed out - no response from M-Pesa'',
                           failed_at := Some (clock (k + length (filter P (take j xs))))\<rparr>
                    else xs ! j)"
          by blast
        then show ?thesis using False Suc by simp
      qed
    qed
    moreover have "transactions (timeout_loop clock k (filter P (x # xs)) s) = pre @ (x # ys)"
      unfolding loop ys by simp
    moreover have "length (x # ys) = length (x # xs)" using len by simp
    ultimately show ?thesis by blast
  qed
qed

lemma sweep_rows:
  assumes "distinct (map txn_id rows)"
  shows "length (transactions (auto_timeout_stuck_transactions now clock rows)) = length rows
         \<and> (\<forall>i < length rows.
               transactions (auto_timeout_stuck_transactions now clock rows) ! i =
                 (if is_stuck (now - timedelta_hours 2) (rows ! i)
                  then (rows ! i)\<lparr>status := ''timeout'',
                         result_desc := ''Transaction timed out - no response from M-Pesa'',
                         failed_at := Some (clock (length
                           (filter (is_stuck (now - timedelta_hours 2)) (take i rows))))\<rparr>
                  else rows ! i))"
proof -
  have d: "distinct (map txn_id ([] @ rows))" using assms by simp
  have t: "transactions \<lparr>transactions = rows, outbox = [], timeout_count = 0\<rparr> = [] @ rows"
    by simp
  from timeout_loop_rows [OF d t, of clock 0 "is_stuck (now - timedelta_hours 2)"]
  show ?thesis
    by (auto simp add: auto_timeout_stuck_transactions_def Let_def)
qed

text \<open>
  C1. The hourly sweep sets the status to \<open>timeout\<close> for exactly the transactions whose
  status is \<open>processing\<close> and whose \<open>initiated_at\<close> is at least 2 hours before the sweep
  time, and sets their \<open>failed_at\<close> (to the clock reading of their pass of the loop) and
  the timeout description; every other transaction is left as it was; and when every
  status was one of the six before, every status is one of the six afterwards. The rows
  of the table have distinct primary keys.
\<close>

theorem auto_timeout_sweep:
  "distinct (map txn_id rows) \<Longrightarrow>
   length (transactions (auto_timeout_stuck_transactions now clock rows)) = length rows
   \<and> (\<forall>i < length rows.
         transactions (auto_timeout_stuck_transactions now clock rows) ! i =
           (if status (rows ! i) = ''processing''
               \<and> initiated_at (rows ! i) \<le> now - timedelta_hours 2
            then (rows ! i)\<lparr>status := ''timeout'',
                   result_desc := ''Transaction timed out - no response from M-Pesa'',
                   failed_at := Some (clock (length
                     (filter (\<lambda>t. status t = ''processing''
                                  \<and> initiated_at t \<le> now - timedelta_hours 2)
                        (take i rows))))\<rparr>
            else rows ! i))
   \<and> timeout_count (auto_timeout_stuck_transactions now clock rows)
       = length (filter (\<lambda>t. status t = ''processing''
                              \<and> initiated_at t \<le> now - timedelta_hours 2) rows)
   \<and> ((\<forall>t \<in> set rows. status t \<in> set transaction_statuses) \<longrightarrow>
        (\<forall>t \<in> set (transactions (auto_timeout_stuck_transactions now clock rows)).
           status t \<in> set transaction_statuses))"
proof -
  assume d: "distinct (map txn_id rows)"
  define after where "after = transactions (auto_timeout_stuck_transactions now clock rows)"
  have stuck: "is_stuck (now - timedelta_hours 2)
                 = (\<lambda>t. status t = ''processing'' \<and> initiated_at t \<le> now - timedelta_hours 2)"
    by (rule ext) (simp add: is_stuck_def)
  from sweep_rows [OF d, of now clock]
  have len: "length after = length rows"
    and nth: "\<forall>i < length rows.
               after ! i =
                 (if status (rows ! i) = ''processing''
                     \<and> initiated_at (rows ! i) \<le> now - timedelta_hours 2
                  then (rows ! i)\<lparr>status := ''timeout'',
                         result_desc := ''Transaction timed out - no response from M-Pesa'',
                         failed_at := Some (clock (length
                           (filter (\<lambda>t. status t = ''processing''
                                        \<and> initiated_at t \<le> now - timedelta_hours 2)
                              (take i rows))))\<rparr>
                  else rows ! i)"
    unfolding after_def stuck by blast+
  have cnt: "timeout_count (auto_timeout_stuck_transactions now clock rows)
       = length (filter (\<lambda>t. status t = ''processing''
                              \<and> initiated_at t \<le> now - timedelta_hours 2) rows)"
    by (simp add: auto_timeout_stuck_transactions_def Let_def timeout_count_loop stuck)
  have six: "\<forall>t \<in> set after. status t \<in> set transaction_statuses"
    if before: "\<forall>t \<in> set rows. status t \<in> set transaction_statuses"
  proof
    fix t assume "t \<in> set after"
    then obtain i where i: "i < length after" and t: "t = after ! i"
      by (auto simp add: in_set_conv_nth)
    from i len have i': "i < length rows" by simp
    with before have old: "status (rows ! i) \<in> set transaction_statuses" by simp
    from nth i' have "status (after ! i) = ''timeout'' \<or> after ! i = rows ! i"
      by (cases "status (rows ! i) = ''processing''
                   \<and> initiated_at (rows ! i) \<le> now - timedelta_hours 2") simp_all
    then show "status t \<in> set transaction_statuses"
      using old t by (auto simp add: transaction_statuses_def)
  qed
  show ?thesis
    unfolding after_def [symmetric] using len nth cnt six by blast
qed

text \<open>
  A sweep three hours after the fixture transaction was initiated, over that transaction,
  a transaction still \<open>pending\<close> and one in \<open>processing\<close> for one hour: only the first is
  timed out.
\<close>

theorem auto_timeout_sweep_witness:
  "transactions
     (auto_timeout_stuck_transactions (timedelta_hours 3) (\<lambda>k. timedelta_hours 3 + 7)
        [sample_transaction,
         sample_transaction\<lparr>txn_id := 2, status := ''pending''\<rparr>,
         sample_transaction\<lparr>txn_id := 3, initiated_at := timedelta_hours 2\<rparr>])
   = [sample_transaction\<lparr>status := ''timeout'',
        result_desc := ''Transaction timed out - no response from M-Pesa'',
        failed_at := Some (timedelta_hours 3 + 7)\<rparr>,
      sample_transaction\<lparr>txn_id := 2, status := ''pending''\<rparr>,
      sample_transaction\<lparr>txn_id := 3, initiated_at := timedelta_hours 2\<rparr>]"
  using auto_timeout_sweep
          [where now = "timedelta_hours 3" and clock = "\<lambda>k. timedelta_hours 3 + 7"
             and rows = "[sample_transaction,
                          sample_transaction\<lparr>txn_id := 2, status := ''pending''\<rparr>,
                          sample_transaction\<lparr>txn_id := 3, initiated_at := timedelta_hours 2\<rparr>]"]
  by (simp add: auto_timeout_stuck_transactions_def is_stuck_def timeout_transaction_def
        save_transaction_def sample_transaction_def timedelta_hours_def Let_def)

section \<open>The sweep over pending transactions\<close>

lemma status_notification_dispatch:
  "status u \<noteq> ''processing'' \<Longrightarrow> status_notification u = expected_dispatch (Returned (Some u))"
  by (simp add: status_notification_def expected_dispatch_def)

lemma expected_dispatch_processing:
  "status u = ''processing'' \<Longrightarrow> expected_dispatch (Returned (Some u)) = []"
  by (simp add: expected_dispatch_def)

lemma expected_dispatch_none:
  "expected_dispatch Raised = []" "expected_dispatch (Returned None) = []"
  by (simp_all add: expected_dispatch_def)

lemma check_transaction_fields:
  "world (check_transaction service t s) = snd (service (checkout_request_id t) (world s))"
  "requests (check_transaction service t s) = requests s @ [checkout_request_id t]"
  "checked_count (check_transaction service t s) = checked_count s + 1"
  "sent (check_transaction service t s)
     = sent s @ expected_dispatch (fst (service (checkout_request_id t) (world s)))"
  by (simp_all add: check_transaction_def Let_def status_notification_dispatch
        expected_dispatch_processing expected_dispatch_none
        split: prod.splits call_result.splits option.splits)

lemma check_loop_requests:
  "requests (check_loop service ts s) = requests s @ map checkout_request_id ts"
  by (induction ts arbitrary: s) (simp_all add: check_transaction_fields)

lemma check_loop_checked_count:
  "checked_count (check_loop service ts s) = checked_count s + length ts"
  by (induction ts arbitrary: s) (simp_all add: check_transaction_fields)

lemma check_loop_sent:
  "sent (check_loop service ts s)
     = sent s @ concat (map expected_dispatch
                          (service_replies service (map checkout_request_id ts) (world s)))"
  by (induction ts arbitrary: s)
     (simp_all add: check_transaction_fields split: prod.splits)

text \<open>
  Two transactions initiated ten minutes before the sweep, one with status \<open>pending\<close>,
  one with status \<open>processing\<close> and no checkout request id yet: the sweep asks the
  service about neither.
\<close>

theorem check_pending_skips_pending_status:
  "requests
     (check_pending_transactions (\<lambda>c w. (Returned None, w)) (timedelta_minutes 10)
        [sample_transaction\<lparr>status := ''pending''\<rparr>,
         sample_transaction\<lparr>txn_id := 2, checkout_request_id := []\<rparr>] ()) = []
   \<and> checked_count
       (check_pending_transactions (\<lambda>c w. (Returned None, w)) (timedelta_minutes 10)
          [sample_transaction\<lparr>status := ''pending''\<rparr>,
           sample_transaction\<lparr>txn_id := 2, checkout_request_id := []\<rparr>] ()) = 0
   \<and> initiated_at sample_transaction = 0"
  by (simp add: check_pending_transactions_def is_pending_selected_def sample_transaction_def
        timedelta_minutes_def Let_def)

text \<open>
  C2 (amended). The sweep examines every transaction whose status is \<open>processing\<close>, whose
  checkout request id is not empty and that was initiated at least 5 minutes before the
  sweep time, and no other: it asks the service once about each of them, in the order of
  the query. For each reply that carries a transaction whose status is no longer
  \<open>processing\<close> it sends a payment confirmation when that status is \<open>completed\<close> and a
  payment-failed notification when it is \<open>failed\<close>, \<open>cancelled\<close> or \<open>timeout\<close>, and it
  sends nothing else. A transaction initiated less than 5 minutes before the sweep is
  not among those examined.
\<close>

theorem check_pending_transactions_sweep:
  "(let selected = filter (\<lambda>t. status t = ''processing''
                               \<and> initiated_at t \<le> now - timedelta_minutes 5
                               \<and> checkout_request_id t \<noteq> []) rows;
        s = check_pending_transactions service now rows w
    in requests s = map checkout_request_id selected
       \<and> checked_count s = length selected
       \<and> sent s = concat (map expected_dispatch
                             (service_replies service (map checkout_request_id selected) w))
       \<and> (\<forall>t \<in> set rows. now - timedelta_minutes 5 < initiated_at t \<longrightarrow> t \<notin> set selected))"
proof -
  have sel: "is_pending_selected (now - timedelta_minutes 5)
               = (\<lambda>t. status t = ''processing''
                       \<and> initiated_at t \<le> now - timedelta_minutes 5
                       \<and> checkout_request_id t \<noteq> [])"
    by (rule ext) (simp add: is_pending_selected_def)
  show ?thesis
    by (simp add: check_pending_transactions_def Let_def sel check_loop_requests
          check_loop_checked_count check_loop_sent)
qed

text \<open>
  A sweep ten minutes after the fixture transaction was initiated, with a service that
  reports it completed: one request, one confirmation; a second transaction initiated
  two minutes before the sweep is not asked about.
\<close>

theorem check_pending_transactions_sweep_witness:
  "requests
     (check_pending_transactions
        (\<lambda>c w. (Returned (Some (sample_transaction\<lparr>status := ''completed''\<rparr>)), w))
        (timedelta_minutes 10)
        [sample_transaction,
         sample_transaction\<lparr>txn_id := 2, checkout_request_id := ''ws_CO_2'',
                             initiated_at := timedelta_minutes 8\<rparr>] ())
     = [''ws_CO_1'']
   \<and> sent
       (check_pending_transactions
          (\<lambda>c w. (Returned (Some (sample_transaction\<lparr>status := ''completed''\<rparr>)), w))
          (timedelta_minutes 10)
          [sample_transaction,
           sample_transaction\<lparr>txn_id := 2, checkout_request_id := ''ws_CO_2'',
                               initiated_at := timedelta_minutes 8\<rparr>] ())
     = [PaymentConfirmationEmail 1]"
  using check_pending_transactions_sweep
          [where service = "\<lambda>c w. (Returned (Some (sample_transaction\<lparr>status := ''completed''\<rparr>)), w)"
             and now = "timedelta_minutes 10" and w = "()"
             and rows = "[sample_transaction,
                          sample_transaction\<lparr>txn_id := 2, checkout_request_id := ''ws_CO_2'',
                                              initiated_at := timedelta_minutes 8\<rparr>]"]
  by (simp add: expected_dispatch_def sample_transaction_def timedelta_minutes_def Let_def)

section \<open>Stock stays non-negative\<close>




















end
